theory Spec2Isabelle
  imports Main
begin

section \<open>JavaScript values\<close>

text \<open>
  The strategy of \<^verbatim>\<open>src/index.ts\<close> works on untyped JavaScript values: the request
  and its containers, the arguments of the completion callback, thrown values.
  An object is the list of its own properties (the first binding of a key wins).
  Numbers are integers here (no NaN); functions and the prototype chain are not modelled,
  so reading a property sees the own properties only.
\<close>

datatype jsval =
    JUndefined
  | JNull
  | JBool bool
  | JNum int
  | JStr string
  | JObj "(string \<times> jsval) list"

text \<open>JavaScript's ToBoolean, as used by \<^verbatim>\<open>if\<close>, \<^verbatim>\<open>!\<close>, \<^verbatim>\<open>&&\<close> and \<^verbatim>\<open>||\<close>.\<close>

fun truthy :: "jsval \<Rightarrow> bool" where
  "truthy JUndefined = False"
| "truthy JNull = False"
| "truthy (JBool b) = b"
| "truthy (JNum n) = (n \<noteq> 0)"
| "truthy (JStr s) = (s \<noteq> [])"
| "truthy (JObj ps) = True"

text \<open>
  \<^verbatim>\<open>new Error(msg)\<close> and the TypeError of a property read on \<^verbatim>\<open>null\<close> or
  \<^verbatim>\<open>undefined\<close>, as objects.
\<close>

definition js_Error :: "string \<Rightarrow> jsval" where
  "js_Error msg = JObj [(''name'', JStr ''Error''), (''message'', JStr msg)]"

definition js_TypeError :: "string \<Rightarrow> jsval" where
  "js_TypeError prop =
     JObj [(''name'', JStr ''TypeError''),
           (''message'', JStr (''Cannot read properties of null or undefined: '' @ prop))]"

text \<open>
  The property read \<^verbatim>\<open>x[key]\<close>: it throws on \<^verbatim>\<open>null\<close> and \<^verbatim>\<open>undefined\<close>, gives the
  own property of an object, and \<^verbatim>\<open>undefined\<close> where there is none.
  A thrown value is \<open>Inl\<close>.
\<close>

fun get_prop :: "jsval \<Rightarrow> string \<Rightarrow> jsval + jsval" where
  "get_prop JUndefined key = Inl (js_TypeError key)"
| "get_prop JNull key = Inl (js_TypeError key)"
| "get_prop (JObj ps) key = (case map_of ps key of None \<Rightarrow> Inr JUndefined | Some v \<Rightarrow> Inr v)"
| "get_prop x key = Inr JUndefined"

text \<open>
  \<^verbatim>\<open>c && c[field]\<close>: the left operand when it is falsy, the property otherwise.
\<close>

definition and_index :: "jsval \<Rightarrow> string \<Rightarrow> jsval + jsval" where
  "and_index c field = (if truthy c then get_prop c field else Inr c)"

section \<open>Token Locator\<close>

text \<open>
  \<^verbatim>\<open>lookup\<close> (index.ts, lines 171 to 177):
  \<^verbatim>\<open>(req.body && req.body[field]) || (req.query && req.query[field]) || (req.headers && req.headers[field])\<close>.
  The request is a JavaScript value, so that the read of \<^verbatim>\<open>req.body\<close> on a request that
  is \<^verbatim>\<open>null\<close> or \<^verbatim>\<open>undefined\<close> throws as it does at run time. \<^verbatim>\<open>||\<close> gives its left
  operand when that is truthy and evaluates the right one only otherwise.
\<close>

definition lookup :: "jsval \<Rightarrow> string \<Rightarrow> jsval + jsval" where
  "lookup req field =
     (case get_prop req ''body'' of Inl e \<Rightarrow> Inl e | Inr body \<Rightarrow>
     (case and_index body field of Inl e \<Rightarrow> Inl e | Inr b \<Rightarrow>
        if truthy b then Inr b
        else
         (case get_prop req ''query'' of Inl e \<Rightarrow> Inl e | Inr query \<Rightarrow>
         (case and_index query field of Inl e \<Rightarrow> Inl e | Inr q \<Rightarrow>
            if truthy q then Inr q
            else
             (case get_prop req ''headers'' of Inl e \<Rightarrow> Inl e | Inr headers \<Rightarrow>
                and_index headers field)))))"

section \<open>Claims and profile\<close>

text \<open>
  \<^verbatim>\<open>TokenPayload\<close> of the verification library, with the claims \<^verbatim>\<open>parseProfile\<close> reads:
  \<^verbatim>\<open>sub\<close> is required, the others are optional (\<open>None\<close> is an absent claim).
\<close>

record token_payload =
  sub :: string
  name :: "string option"
  family_name :: "string option"
  given_name :: "string option"
  email :: "string option"
  email_verified :: "bool option"
  picture :: "string option"

text \<open>
  The \<^verbatim>\<open>Profile\<close> interface (lines 9 to 25). \<^verbatim>\<open>familyName\<close>, \<^verbatim>\<open>givenName\<close> and
  \<^verbatim>\<open>verified\<close> are declared \<^verbatim>\<open>string\<close> and \<^verbatim>\<open>boolean\<close>, but \<^verbatim>\<open>parseProfile\<close> fills them
  with a cast (\<^verbatim>\<open>as string\<close>, \<^verbatim>\<open>as boolean\<close>) of an optional claim, so they can hold
  \<^verbatim>\<open>undefined\<close>, here \<open>None\<close>. The fields \<^verbatim>\<open>id\<close>, \<^verbatim>\<open>name\<close>, \<^verbatim>\<open>value\<close> and \<^verbatim>\<open>_json\<close> carry
  a prefix.
\<close>

record structured_name =
  familyName :: "string option"
  givenName :: "string option"

record photo_entry =
  photo_value :: string

record email_entry =
  email_value :: string
  verified :: "bool option"

record profile =
  provider :: string
  profile_id :: string
  displayName :: string
  profile_name :: "structured_name option"
  photos :: "photo_entry list"
  emails :: "email_entry list"
  profile_json :: token_payload

text \<open>Truthiness of an optional string: absent and the empty string are falsy.\<close>

fun truthy_str :: "string option \<Rightarrow> bool" where
  "truthy_str None = False"
| "truthy_str (Some s) = (s \<noteq> [])"

text \<open>\<^verbatim>\<open>x || ''\<close> on an optional string.\<close>

fun or_empty :: "string option \<Rightarrow> string" where
  "or_empty None = []"
| "or_empty (Some s) = (if s \<noteq> [] then s else [])"

text \<open>\<^verbatim>\<open>parseProfile\<close> (lines 197 to 233): the initial object, then the three updates.\<close>

definition parseProfile :: "token_payload \<Rightarrow> profile" where
  "parseProfile payload =
     (let p0 = \<lparr>provider = ''google'',
                profile_id = sub payload,
                displayName = or_empty (name payload),
                profile_name = None,
                photos = [],
                emails = [],
                profile_json = payload\<rparr>;
          p1 = (if truthy_str (family_name payload) \<or> truthy_str (given_name payload)
                then p0\<lparr>profile_name :=
                          Some \<lparr>familyName = family_name payload,
                                givenName = given_name payload\<rparr>\<rparr>
                else p0);
          p2 = (case email payload of
                  Some e \<Rightarrow>
                    if e \<noteq> []
                    then p1\<lparr>emails := [\<lparr>email_value = e, verified = email_verified payload\<rparr>]\<rparr>
                    else p1
                | None \<Rightarrow> p1);
          p3 = (case picture payload of
                  Some u \<Rightarrow> if u \<noteq> [] then p2\<lparr>photos := [\<lparr>photo_value = u\<rparr>]\<rparr> else p2
                | None \<Rightarrow> p2)
      in p3)"

section \<open>The strategy\<close>

text \<open>
  The verification engine is outside the repository. \<^verbatim>\<open>client.verifyIdToken\<close> takes the
  located token and the audience; its promise resolves with a ticket, rejects (a
  synchronous throw inside the \<^verbatim>\<open>try\<close> block is the same case), or never settles.
  \<^verbatim>\<open>ticket.getPayload()\<close> gives the claims or \<^verbatim>\<open>undefined\<close>.
\<close>

datatype ticket = Ticket "token_payload option"

fun getPayload :: "ticket \<Rightarrow> token_payload option" where
  "getPayload (Ticket p) = p"

datatype engine_result =
    Resolves ticket
  | Rejects jsval
  | Never_settles

type_synonym oauth2client = "jsval \<Rightarrow> string \<Rightarrow> engine_result"

text \<open>How a call of a function of the host or of the caller ends: it returns or it throws.\<close>

datatype call_result =
    Returned
  | Threw jsval

text \<open>The arguments \<^verbatim>\<open>(error, user, info)\<close> of one call of the completion callback.\<close>

type_synonym done_args = "jsval \<times> jsval \<times> jsval"

text \<open>
  The caller-supplied verification function is arbitrary code. It gets its arguments by
  position; \<open>ArgDone\<close> is the completion callback \<^verbatim>\<open>verifiedFunction\<close>. What one
  invocation does, as \<^verbatim>\<open>authenticate\<close> can observe it:
  \<^item> \<open>sync_calls\<close>: the calls of the callback it makes before it returns or throws;
  \<^item> \<open>thrown\<close>: the value it throws to its caller, if it does;
  \<^item> \<open>async_calls\<close>: the calls of the callback it makes later, from callbacks of its
    own that run after \<^verbatim>\<open>authenticate\<close> has finished;
  \<^item> \<open>async_failure\<close>: a failure that surfaces after the invocation has returned: the
    rejection of the promise an \<^verbatim>\<open>async\<close> function returns when its body throws, or
    what one of its later callbacks throws. \<^verbatim>\<open>authenticate\<close> drops the value the
    invocation returns, so nothing reads this field.
  What a handler throws inside a call of the callback goes to the code that made the
  call, that is to the verification function; whether that code lets it pass is part of
  \<open>thrown\<close>.
\<close>

datatype verify_arg =
    ArgReq jsval
  | ArgToken string
  | ArgProfile profile
  | ArgDone

record verify_run =
  sync_calls :: "done_args list"
  thrown :: "jsval option"
  async_calls :: "done_args list"
  async_failure :: "jsval option"

type_synonym verify_function = "verify_arg list \<Rightarrow> verify_run"

record strategy_options =
  clientID :: string
  passReqToCallback :: "bool option"

text \<open>
  The fields of the class (lines 78 to 86). \<^verbatim>\<open>error\<close>, \<^verbatim>\<open>fail\<close> and \<^verbatim>\<open>success\<close> are
  functions the host framework assigns after construction; each is given by how its call
  ends for the arguments it gets. \<^verbatim>\<open>name\<close>, \<^verbatim>\<open>_verify\<close>, \<^verbatim>\<open>_passReqToCallback\<close> and the
  three handlers carry other names here.
\<close>

record strategy =
  client :: oauth2client
  clientId :: string
  strategy_name :: string
  verify_fn :: verify_function
  passReq :: bool
  error_fn :: "jsval \<Rightarrow> call_result"
  fail_fn :: "jsval \<Rightarrow> call_result"
  success_fn :: "jsval \<Rightarrow> jsval \<Rightarrow> call_result"

text \<open>
  The constructor (lines 93 to 106) with the field initialisers of lines 84 to 86
  (\<^verbatim>\<open>() => {}\<close>). \<open>new_client\<close> stands for \<^verbatim>\<open>new OAuth2Client\<close>;
  \<open>passReqToCallback = None\<close> is an options object without that key.
\<close>

definition constructor :: "(string \<Rightarrow> oauth2client) \<Rightarrow> strategy_options \<Rightarrow> verify_function \<Rightarrow> strategy" where
  "constructor new_client options verify =
     \<lparr>client = new_client (clientID options),
      clientId = clientID options,
      strategy_name = ''google-oidc-token'',
      verify_fn = verify,
      passReq = (case passReqToCallback options of Some b \<Rightarrow> b | None \<Rightarrow> False),
      error_fn = (\<lambda>err. Returned),
      fail_fn = (\<lambda>info. Returned),
      success_fn = (\<lambda>user info. Returned)\<rparr>"

section \<open>Outcome handlers and the completion callback\<close>

text \<open>
  A call \<^verbatim>\<open>this.error(err)\<close>, \<^verbatim>\<open>this.fail(info)\<close> or \<^verbatim>\<open>this.success(user, info)\<close> is
  recorded with its arguments at the end of a trace, and ends as the assigned function
  does.
\<close>

datatype outcome =
    Error jsval
  | Fail jsval
  | Success jsval jsval

type_synonym trace = "outcome list"

definition error_handler :: "strategy \<Rightarrow> jsval \<Rightarrow> trace \<Rightarrow> call_result \<times> trace" where
  "error_handler s err tr = (error_fn s err, tr @ [Error err])"

definition fail_handler :: "strategy \<Rightarrow> jsval \<Rightarrow> trace \<Rightarrow> call_result \<times> trace" where
  "fail_handler s info tr = (fail_fn s info, tr @ [Fail info])"

definition success_handler :: "strategy \<Rightarrow> jsval \<Rightarrow> jsval \<Rightarrow> trace \<Rightarrow> call_result \<times> trace" where
  "success_handler s user info tr = (success_fn s user info, tr @ [Success user info])"

text \<open>
  \<^verbatim>\<open>verifiedFunction\<close> (index.ts, lines 126 to 136), threading the trace of handler
  invocations; it ends as the handler it calls (\<^verbatim>\<open>return this.error(error)\<close>).
\<close>

fun verifiedFunction :: "strategy \<Rightarrow> done_args \<Rightarrow> trace \<Rightarrow> call_result \<times> trace" where
  "verifiedFunction s (error, user, info) tr =
     (if truthy error then error_handler s error tr
      else if \<not> truthy user then fail_handler s info tr
      else success_handler s user info tr)"

text \<open>
  A sequence of calls of the completion callback made by the verification function or
  by its later callbacks. Each reaches its handler; how the call ends is for the code
  that made it.
\<close>

fun callback_calls :: "strategy \<Rightarrow> done_args list \<Rightarrow> trace \<Rightarrow> trace" where
  "callback_calls s [] tr = tr"
| "callback_calls s (c # cs) tr = callback_calls s cs (snd (verifiedFunction s c tr))"

section \<open>Authentication\<close>

text \<open>The stand-in tokens of lines 138 and 139.\<close>

definition accessToken :: string where
  "accessToken = ''123''"

definition refreshToken :: string where
  "refreshToken = ''234''"

text \<open>
  What a run has done so far: the handler invocations in order, the argument lists the
  verification function was invoked with, and the calls of the completion callback
  that are still to come.
\<close>

record effects =
  handler_calls :: trace
  verify_calls :: "verify_arg list list"
  deferred :: "done_args list"

datatype completion =
    Normal
  | Throws jsval
  | Suspended

text \<open>
  One invocation \<^verbatim>\<open>this._verify(...)\<close>: the function is applied to the argument list;
  its synchronous calls of the completion callback reach the handlers at once, in
  order; the value it returns is dropped.
\<close>

definition invoke_verify :: "strategy \<Rightarrow> verify_arg list \<Rightarrow> effects \<Rightarrow> completion \<times> effects" where
  "invoke_verify s args fx =
     (let r = verify_fn s args;
          fx' = fx\<lparr>handler_calls := callback_calls s (sync_calls r) (handler_calls fx),
                   verify_calls := verify_calls fx @ [args],
                   deferred := deferred fx @ async_calls r\<rparr>
      in (case thrown r of None \<Rightarrow> (Normal, fx') | Some e \<Rightarrow> (Throws e, fx')))"

text \<open>The body of the \<^verbatim>\<open>try\<close> block (lines 116 to 158).\<close>

definition try_block :: "strategy \<Rightarrow> jsval \<Rightarrow> jsval \<Rightarrow> effects \<Rightarrow> completion \<times> effects" where
  "try_block s req idToken fx =
     (case client s idToken (clientId s) of
        Never_settles \<Rightarrow> (Suspended, fx)
      | Rejects cause \<Rightarrow> (Throws cause, fx)
      | Resolves ticket \<Rightarrow>
          (case getPayload ticket of
             None \<Rightarrow> (Throws (js_Error ''No payload returned''), fx)
           | Some payload \<Rightarrow>
               (let profile = parseProfile payload
                in if passReq s
                   then invoke_verify s
                          [ArgReq req, ArgToken accessToken, ArgToken refreshToken,
                           ArgProfile profile, ArgDone] fx
                   else invoke_verify s
                          [ArgToken accessToken, ArgToken refreshToken,
                           ArgProfile profile, ArgDone] fx)))"

text \<open>
  The state of the promise \<^verbatim>\<open>authenticate\<close> returns: an \<^verbatim>\<open>async\<close> function fulfils its
  promise when its body returns and rejects it with what its body throws. The whole run
  is what happened up to the end of \<^verbatim>\<open>authenticate\<close>, followed by the deferred calls of
  the completion callback.
\<close>

datatype settled =
    Fulfilled
  | Rejected jsval
  | Pending

fun settle :: "call_result \<Rightarrow> settled" where
  "settle Returned = Fulfilled"
| "settle (Threw e) = Rejected e"

record run = effects +
  promise :: settled

definition finish :: "strategy \<Rightarrow> settled \<Rightarrow> effects \<Rightarrow> run" where
  "finish s st fx =
     \<lparr>handler_calls = callback_calls s (deferred fx) (handler_calls fx),
      verify_calls = verify_calls fx,
      deferred = [],
      promise = st\<rparr>"

definition no_effects :: effects where
  "no_effects = \<lparr>handler_calls = [], verify_calls = [], deferred = []\<rparr>"

text \<open>
  \<^verbatim>\<open>authenticate\<close> (lines 112 to 162). The lookup of \<^verbatim>\<open>id_token\<close> stands before the
  \<^verbatim>\<open>try\<close> block: what it throws rejects the promise. What the block throws reaches
  \<^verbatim>\<open>this.error\<close> in the \<^verbatim>\<open>catch\<close> clause, the last statement of the body: the promise
  settles as that call ends.
\<close>

definition authenticate :: "strategy \<Rightarrow> jsval \<Rightarrow> run" where
  "authenticate s req =
     (case lookup req ''id_token'' of
        Inl e \<Rightarrow> finish s (Rejected e) no_effects
      | Inr idToken \<Rightarrow>
          (case try_block s req idToken no_effects of
             (Normal, fx) \<Rightarrow> finish s Fulfilled fx
           | (Throws err, fx) \<Rightarrow>
               (case error_handler s err (handler_calls fx) of
                  (r, tr) \<Rightarrow> finish s (settle r) (fx\<lparr>handler_calls := tr\<rparr>))
           | (Suspended, fx) \<Rightarrow> finish s Pending fx))"

text \<open>
  The argument list of the invocation at lines 143 to 158, for stating what the
  verification function receives: the request first when \<^verbatim>\<open>_passReqToCallback\<close> holds.
\<close>

definition verify_args :: "strategy \<Rightarrow> jsval \<Rightarrow> token_payload \<Rightarrow> verify_arg list" where
  "verify_args s req p =
     (if passReq s then [ArgReq req] else []) @
     [ArgToken accessToken, ArgToken refreshToken, ArgProfile (parseProfile p), ArgDone]"

section \<open>Example inputs\<close>

text \<open>
  Requests with the token in all three containers, in the headers only, and with an
  empty token; two claim sets; engines that accept, reject, return no payload or never
  settle; verification functions that call the completion callback at once, later,
  throw after their calls, fail after they have returned, or report the arguments they
  got as the user; an Error handler that throws.
\<close>

definition request_all :: jsval where
  "request_all =
     JObj [(''body'', JObj [(''id_token'', JStr ''B'')]),
           (''query'', JObj [(''id_token'', JStr ''Q'')]),
           (''headers'', JObj [(''id_token'', JStr ''H'')])]"

definition request_header :: jsval where
  "request_header =
     JObj [(''body'', JUndefined),
           (''query'', JObj []),
           (''headers'', JObj [(''id_token'', JStr ''H'')])]"

definition request_none :: jsval where
  "request_none =
     JObj [(''query'', JObj []),
           (''headers'', JObj [(''id_token'', JStr [])])]"

definition payload_full :: token_payload where
  "payload_full =
     \<lparr>sub = ''1001'', name = Some ''Ada Lovelace'', family_name = Some ''Lovelace'',
      given_name = Some ''Ada'', email = Some ''ada@example.org'',
      email_verified = Some True, picture = None\<rparr>"

definition payload_bare :: token_payload where
  "payload_bare =
     \<lparr>sub = ''1002'', name = None, family_name = None, given_name = None,
      email = None, email_verified = None, picture = None\<rparr>"

definition accepting_client :: "token_payload \<Rightarrow> string \<Rightarrow> oauth2client" where
  "accepting_client p cid = (\<lambda>idToken audience. Resolves (Ticket (Some p)))"

definition rejecting_client :: "jsval \<Rightarrow> string \<Rightarrow> oauth2client" where
  "rejecting_client cause cid = (\<lambda>idToken audience. Rejects cause)"

definition empty_client :: "string \<Rightarrow> oauth2client" where
  "empty_client cid = (\<lambda>idToken audience. Resolves (Ticket None))"

definition hanging_client :: "string \<Rightarrow> oauth2client" where
  "hanging_client cid = (\<lambda>idToken audience. Never_settles)"

definition verify_calling :: "done_args list \<Rightarrow> verify_function" where
  "verify_calling cs =
     (\<lambda>args. \<lparr>sync_calls = cs, thrown = None, async_calls = [], async_failure = None\<rparr>)"

definition verify_later :: "done_args list \<Rightarrow> verify_function" where
  "verify_later cs =
     (\<lambda>args. \<lparr>sync_calls = [], thrown = None, async_calls = cs, async_failure = None\<rparr>)"

definition verify_throwing :: "done_args list \<Rightarrow> jsval \<Rightarrow> verify_function" where
  "verify_throwing cs e =
     (\<lambda>args. \<lparr>sync_calls = cs, thrown = Some e, async_calls = [], async_failure = None\<rparr>)"

definition user_1 :: jsval where
  "user_1 = JObj [(''id'', JNum 1)]"

definition done_user :: done_args where
  "done_user = (JNull, user_1, JUndefined)"

definition options_plain :: strategy_options where
  "options_plain = \<lparr>clientID = ''client-1'', passReqToCallback = None\<rparr>"

definition options_with_request :: strategy_options where
  "options_with_request = \<lparr>clientID = ''client-1'', passReqToCallback = Some True\<rparr>"

definition verify_failing_later :: "jsval \<Rightarrow> verify_function" where
  "verify_failing_later e =
     (\<lambda>args. \<lparr>sync_calls = [], thrown = None, async_calls = [], async_failure = Some e\<rparr>)"

fun arg_label :: "verify_arg \<Rightarrow> string \<times> jsval" where
  "arg_label (ArgReq r) = (''req'', r)"
| "arg_label (ArgToken t) = (''token'', JStr t)"
| "arg_label (ArgProfile p) = (''profile'', JStr (profile_id p))"
| "arg_label ArgDone = (''done'', JNull)"

definition verify_reporting :: verify_function where
  "verify_reporting =
     (\<lambda>args. \<lparr>sync_calls = [(JNull, JObj (map arg_label args), JUndefined)], thrown = None,
              async_calls = [], async_failure = None\<rparr>)"

definition error_fn_throwing :: "jsval \<Rightarrow> jsval \<Rightarrow> call_result" where
  "error_fn_throwing e = (\<lambda>err. Threw e)"

section \<open>Auxiliary lemmas\<close>

lemmas run_defs = authenticate_def try_block_def invoke_verify_def finish_def no_effects_def
  error_handler_def Let_def

lemmas example_defs = request_all_def request_header_def request_none_def payload_full_def
  payload_bare_def accepting_client_def rejecting_client_def empty_client_def
  hanging_client_def verify_calling_def verify_later_def verify_throwing_def
  verify_failing_later_def verify_reporting_def error_fn_throwing_def user_1_def
  done_user_def options_plain_def options_with_request_def constructor_def

lemma verifiedFunction_extends: "\<exists>h. snd (verifiedFunction s c tr) = tr @ [h]"
  by (cases c) (simp add: error_handler_def fail_handler_def success_handler_def)

lemma callback_calls_extends: "\<exists>hs. callback_calls s cs tr = tr @ hs \<and> length hs = length cs"
proof (induction cs arbitrary: tr)
  case Nil
  show ?case by simp
next
  case (Cons c cs)
  obtain h where h: "snd (verifiedFunction s c tr) = tr @ [h]"
    using verifiedFunction_extends by blast
  obtain hs where "callback_calls s cs (tr @ [h]) = (tr @ [h]) @ hs" and "length hs = length cs"
    using Cons.IH by blast
  with h have "callback_calls s (c # cs) tr = tr @ (h # hs) \<and> length (h # hs) = length (c # cs)"
    by simp
  then show ?case by blast
qed

lemma callback_calls_length:
  "length (callback_calls s cs tr) = length tr + length cs"
proof -
  obtain hs where "callback_calls s cs tr = tr @ hs" and "length hs = length cs"
    using callback_calls_extends by blast
  then show ?thesis by simp
qed

lemma callback_calls_mono: "set tr \<subseteq> set (callback_calls s cs tr)"
proof -
  obtain hs where "callback_calls s cs tr = tr @ hs"
    using callback_calls_extends by blast
  then show ?thesis by simp
qed

lemma get_prop_defined:
  "x \<noteq> JUndefined \<Longrightarrow> x \<noteq> JNull \<Longrightarrow> \<exists>v. get_prop x k = Inr v"
  by (cases x) (auto split: option.splits)

lemma and_index_defined: "\<exists>v. and_index c k = Inr v"
  unfolding and_index_def using get_prop_defined [of c k] by (cases c) auto

lemma lookup_defined:
  assumes "req \<noteq> JUndefined" and "req \<noteq> JNull"
  shows "\<exists>v. lookup req field = Inr v"
proof -
  obtain body where b: "get_prop req ''body'' = Inr body"
    using get_prop_defined [OF assms] by blast
  obtain query where q: "get_prop req ''query'' = Inr query"
    using get_prop_defined [OF assms] by blast
  obtain headers where h: "get_prop req ''headers'' = Inr headers"
    using get_prop_defined [OF assms] by blast
  obtain vb where vb: "and_index body field = Inr vb" using and_index_defined by blast
  obtain vq where vq: "and_index query field = Inr vq" using and_index_defined by blast
  obtain vh where vh: "and_index headers field = Inr vh" using and_index_defined by blast
  show ?thesis by (simp add: lookup_def b q h vb vq vh)
qed

lemma lookup_request_all: "lookup request_all ''id_token'' = Inr (JStr ''B'')"
  by (simp add: request_all_def lookup_def and_index_def)

lemma authenticate_verified:
  assumes "lookup req ''id_token'' = Inr idToken"
    and "client s idToken (clientId s) = Resolves t" and "getPayload t = Some p"
  shows "authenticate s req =
           \<lparr>handler_calls =
              callback_calls s (async_calls (verify_fn s (verify_args s req p)))
                (callback_calls s (sync_calls (verify_fn s (verify_args s req p))) [] @
                 (case thrown (verify_fn s (verify_args s req p)) of
                    None \<Rightarrow> [] | Some e \<Rightarrow> [Error e])),
            verify_calls = [verify_args s req p],
            deferred = [],
            promise = (case thrown (verify_fn s (verify_args s req p)) of
                         None \<Rightarrow> Fulfilled | Some e \<Rightarrow> settle (error_fn s e))\<rparr>"
  using assms by (simp add: run_defs verify_args_def split: option.splits)

lemma authenticate_count:
  assumes "lookup req ''id_token'' = Inr idToken"
    and "client s idToken (clientId s) = Resolves t" and "getPayload t = Some p"
  shows "verify_calls (authenticate s req) = [verify_args s req p]"
    and "length (handler_calls (authenticate s req)) =
             length (sync_calls (verify_fn s (verify_args s req p))) +
             (case thrown (verify_fn s (verify_args s req p)) of None \<Rightarrow> 0 | Some e \<Rightarrow> 1) +
             length (async_calls (verify_fn s (verify_args s req p)))"
    and "thrown (verify_fn s (verify_args s req p)) = Some e \<Longrightarrow>
           Error e \<in> set (handler_calls (authenticate s req))"
proof -
  note a = authenticate_verified [OF assms]
  show "verify_calls (authenticate s req) = [verify_args s req p]"
    by (simp add: a)
  show "length (handler_calls (authenticate s req)) =
             length (sync_calls (verify_fn s (verify_args s req p))) +
             (case thrown (verify_fn s (verify_args s req p)) of None \<Rightarrow> 0 | Some e \<Rightarrow> 1) +
             length (async_calls (verify_fn s (verify_args s req p)))"
    by (simp add: a callback_calls_length split: option.splits)
  assume t: "thrown (verify_fn s (verify_args s req p)) = Some e"
  have "Error e \<in> set (callback_calls s (sync_calls (verify_fn s (verify_args s req p))) [] @ [Error e])"
    by simp
  then have "Error e \<in> set (callback_calls s (async_calls (verify_fn s (verify_args s req p)))
      (callback_calls s (sync_calls (verify_fn s (verify_args s req p))) [] @ [Error e]))"
    using callback_calls_mono by (rule rev_subsetD)
  then show "Error e \<in> set (handler_calls (authenticate s req))"
    by (simp add: a t)
qed

lemma authenticate_failed:
  assumes "lookup req ''id_token'' = Inr idToken"
  shows "client s idToken (clientId s) = Rejects cause \<Longrightarrow>
           authenticate s req =
             \<lparr>handler_calls = [Error cause], verify_calls = [], deferred = [],
              promise = settle (error_fn s cause)\<rparr>"
    and "client s idToken (clientId s) = Resolves t \<Longrightarrow> getPayload t = None \<Longrightarrow>
           authenticate s req =
             \<lparr>handler_calls = [Error (js_Error ''No payload returned'')], verify_calls = [],
              deferred = [], promise = settle (error_fn s (js_Error ''No payload returned''))\<rparr>"
  using assms by (simp_all add: run_defs)

lemma emails_parseProfile:
  "emails (parseProfile payload) =
     (case email payload of
        Some e \<Rightarrow> if e \<noteq> [] then [\<lparr>email_value = e, verified = email_verified payload\<rparr>] else []
      | None \<Rightarrow> [])"
  by (simp add: parseProfile_def Let_def split: option.splits)

lemma profile_name_parseProfile:
  "profile_name (parseProfile payload) =
     (if truthy_str (family_name payload) \<or> truthy_str (given_name payload)
      then Some \<lparr>familyName = family_name payload, givenName = given_name payload\<rparr>
      else None)"
  by (simp add: parseProfile_def Let_def split: option.splits)

section \<open>The completion callback\<close>

text \<open>
  Claim C1. A call of the completion callback with \<open>(error, user, info)\<close> invokes the
  Error handler with \<open>error\<close> when \<open>error\<close> is truthy, the Fail handler with \<open>info\<close> when
  \<open>error\<close> and \<open>user\<close> are falsy, the Success handler with \<open>user\<close> and \<open>info\<close> when
  \<open>error\<close> is falsy and \<open>user\<close> truthy; the trace grows by that one invocation only, and
  the call ends as that handler does.
\<close>

theorem verifiedFunction_dispatch:
  "(truthy error \<longrightarrow>
      verifiedFunction s (error, user, info) tr = (error_fn s error, tr @ [Error error])) \<and>
   (\<not> truthy error \<and> \<not> truthy user \<longrightarrow>
      verifiedFunction s (error, user, info) tr = (fail_fn s info, tr @ [Fail info])) \<and>
   (\<not> truthy error \<and> truthy user \<longrightarrow>
      verifiedFunction s (error, user, info) tr =
        (success_fn s user info, tr @ [Success user info]))"
  by (simp add: error_handler_def fail_handler_def success_handler_def)

theorem verifiedFunction_dispatch_witness:
  "verifiedFunction (constructor (accepting_client payload_full) options_plain (verify_calling []))
      (js_Error ''db down'', JUndefined, JUndefined) []
     = (Returned, [Error (js_Error ''db down'')]) \<and>
   verifiedFunction (constructor (accepting_client payload_full) options_plain (verify_calling []))
      (JNull, JBool False, JObj [(''message'', JStr ''no such user'')]) []
     = (Returned, [Fail (JObj [(''message'', JStr ''no such user'')])]) \<and>
   verifiedFunction (constructor (accepting_client payload_full) options_plain (verify_calling []))
      (JNull, JObj [(''id'', JNum 1)], JUndefined) []
     = (Returned, [Success (JObj [(''id'', JNum 1)]) JUndefined])"
  using verifiedFunction_dispatch
      [where error = "js_Error ''db down''" and user = JUndefined and info = JUndefined
         and tr = "[]"
         and s = "constructor (accepting_client payload_full) options_plain (verify_calling [])"]
    verifiedFunction_dispatch
      [where error = JNull and user = "JBool False"
         and info = "JObj [(''message'', JStr ''no such user'')]" and tr = "[]"
         and s = "constructor (accepting_client payload_full) options_plain (verify_calling [])"]
    verifiedFunction_dispatch
      [where error = JNull and user = "JObj [(''id'', JNum 1)]" and info = JUndefined
         and tr = "[]"
         and s = "constructor (accepting_client payload_full) options_plain (verify_calling [])"]
  by (simp add: js_Error_def constructor_def)

section \<open>Engine failure\<close>

text \<open>
  Claim C2. When the engine rejects, or resolves with a ticket that has no payload, the
  handlers are invoked once in all, Error with the cause (the rejection value, or the
  error \<^verbatim>\<open>No payload returned\<close>), and the verification function is not invoked.
\<close>

theorem authenticate_engine_failure:
  assumes "lookup req ''id_token'' = Inr idToken"
  shows "(client s idToken (clientId s) = Rejects cause \<longrightarrow>
            handler_calls (authenticate s req) = [Error cause] \<and>
            verify_calls (authenticate s req) = []) \<and>
         (client s idToken (clientId s) = Resolves t \<and> getPayload t = None \<longrightarrow>
            handler_calls (authenticate s req) = [Error (js_Error ''No payload returned'')] \<and>
            verify_calls (authenticate s req) = [])"
  using assms by (simp add: run_defs)

theorem authenticate_engine_failure_witness:
  "lookup request_all ''id_token'' = Inr (JStr ''B'') \<and>
   handler_calls (authenticate
       (constructor (rejecting_client (js_Error ''Token used too late'')) options_plain
          (verify_calling [done_user])) request_all)
     = [Error (js_Error ''Token used too late'')] \<and>
   verify_calls (authenticate
       (constructor (rejecting_client (js_Error ''Token used too late'')) options_plain
          (verify_calling [done_user])) request_all) = [] \<and>
   handler_calls (authenticate
       (constructor empty_client options_plain (verify_calling [done_user])) request_all)
     = [Error (js_Error ''No payload returned'')] \<and>
   verify_calls (authenticate
       (constructor empty_client options_plain (verify_calling [done_user])) request_all) = []"
  using lookup_request_all
    authenticate_engine_failure [OF lookup_request_all,
      of "constructor (rejecting_client (js_Error ''Token used too late'')) options_plain
            (verify_calling [done_user])" "js_Error ''Token used too late''" "Ticket None"]
    authenticate_engine_failure [OF lookup_request_all,
      of "constructor empty_client options_plain (verify_calling [done_user])"
         JNull "Ticket None"]
  by (simp add: example_defs)

section \<open>Number of outcomes\<close>

text \<open>
  Claim C3 says that every call of \<^verbatim>\<open>authenticate\<close> invokes exactly one handler exactly
  once. The code has no guard for that: the handlers follow the calls of the completion
  callback. A verification function that never calls it and returns leaves no outcome,
  one that calls it twice gives two, one that throws after its call gives Success and
  then Error from the \<^verbatim>\<open>catch\<close> clause, and an engine that never settles leaves no
  outcome.
\<close>

theorem authenticate_one_outcome_counterexample:
  "handler_calls (authenticate
       (constructor (accepting_client payload_full) options_plain (verify_calling []))
       request_all) = [] \<and>
   handler_calls (authenticate
       (constructor (accepting_client payload_full) options_plain
          (verify_calling [done_user, done_user])) request_all)
     = [Success user_1 JUndefined, Success user_1 JUndefined] \<and>
   handler_calls (authenticate
       (constructor (accepting_client payload_full) options_plain
          (verify_throwing [done_user] (js_Error ''boom''))) request_all)
     = [Success user_1 JUndefined, Error (js_Error ''boom'')] \<and>
   handler_calls (authenticate
       (constructor hanging_client options_plain (verify_calling [done_user])) request_all) = []"
  by (simp add: run_defs example_defs lookup_def and_index_def accessToken_def refreshToken_def
      success_handler_def fail_handler_def)

text \<open>
  Claim C3, amended. When the token lookup returns and the engine settles, and for every
  invocation of the verification function made in the run the number of its calls of
  the completion callback, at once or later, plus one if it throws, is exactly one,
  then exactly one handler invocation happens in the whole run. (No invocation is made
  when the engine rejects or gives no payload: Error is then the one outcome.)
\<close>

theorem authenticate_one_outcome:
  assumes "lookup req ''id_token'' = Inr idToken"
    and "client s idToken (clientId s) \<noteq> Never_settles"
    and "\<forall>args \<in> set (verify_calls (authenticate s req)).
           length (sync_calls (verify_fn s args)) + length (async_calls (verify_fn s args)) +
           (case thrown (verify_fn s args) of None \<Rightarrow> 0 | Some e \<Rightarrow> 1) = 1"
  shows "length (handler_calls (authenticate s req)) = 1"
proof (cases "client s idToken (clientId s)")
  case (Resolves t)
  show ?thesis
  proof (cases "getPayload t")
    case None
    with Resolves assms(1) show ?thesis by (simp add: run_defs)
  next
    case (Some p)
    from authenticate_count(1,2) [OF assms(1) Resolves Some] assms(3)
    show ?thesis by simp
  qed
next
  case (Rejects cause)
  with assms(1) show ?thesis by (simp add: run_defs)
next
  case Never_settles
  with assms(2) show ?thesis by simp
qed

theorem authenticate_one_outcome_witness:
  "lookup request_all ''id_token'' = Inr (JStr ''B'') \<and>
   client (constructor (accepting_client payload_full) options_plain
             (verify_throwing [] (js_Error ''boom'')))
     (JStr ''B'') ''client-1'' \<noteq> Never_settles \<and>
   verify_throwing [] (js_Error ''boom'')
     [ArgToken accessToken, ArgToken refreshToken, ArgProfile (parseProfile payload_full), ArgDone]
     = \<lparr>sync_calls = [], thrown = Some (js_Error ''boom''), async_calls = [],
        async_failure = None\<rparr> \<and>
   handler_calls (authenticate
       (constructor (accepting_client payload_full) options_plain
          (verify_throwing [] (js_Error ''boom''))) request_all) = [Error (js_Error ''boom'')] \<and>
   length (handler_calls (authenticate
       (constructor (accepting_client payload_full) options_plain
          (verify_throwing [] (js_Error ''boom''))) request_all)) = 1 \<and>
   handler_calls (authenticate
       (constructor (accepting_client payload_full) options_plain (verify_later [done_user]))
       request_all) = [Success user_1 JUndefined] \<and>
   length (handler_calls (authenticate
       (constructor (accepting_client payload_full) options_plain (verify_later [done_user]))
       request_all)) = 1"
  using authenticate_one_outcome [OF lookup_request_all,
      of "constructor (accepting_client payload_full) options_plain
            (verify_throwing [] (js_Error ''boom''))"]
    authenticate_one_outcome [OF lookup_request_all,
      of "constructor (accepting_client payload_full) options_plain (verify_later [done_user])"]
  by (simp add: run_defs example_defs lookup_def and_index_def accessToken_def refreshToken_def
      success_handler_def fail_handler_def)

section \<open>Exceptions\<close>

text \<open>
  Claim C4 says that every exception of steps 1 to 5 is caught and becomes an Error
  invocation, and that nothing leaves \<^verbatim>\<open>authenticate\<close>. Three runs show what the code does
  instead. The call \<^verbatim>\<open>this._verify(...)\<close> is not awaited: a verification function that
  fails after it has returned (an \<^verbatim>\<open>async\<close> function whose body throws) reaches no
  handler. The \<^verbatim>\<open>catch\<close> clause calls \<^verbatim>\<open>this.error\<close> unguarded: when that call throws,
  the promise of \<^verbatim>\<open>authenticate\<close> rejects. The lookup stands before the \<^verbatim>\<open>try\<close> block: on
  the request \<^verbatim>\<open>null\<close> the read of \<^verbatim>\<open>req.body\<close> throws, no handler is invoked and the
  promise rejects.
\<close>

theorem authenticate_catches_counterexample:
  "async_failure (verify_failing_later (js_Error ''boom'')
       [ArgToken accessToken, ArgToken refreshToken, ArgProfile (parseProfile payload_full),
        ArgDone]) = Some (js_Error ''boom'') \<and>
   handler_calls (authenticate
       (constructor (accepting_client payload_full) options_plain
          (verify_failing_later (js_Error ''boom''))) request_all) = [] \<and>
   handler_calls (authenticate
       ((constructor (rejecting_client (js_Error ''Token used too late'')) options_plain
           (verify_calling [done_user]))
        \<lparr>error_fn := error_fn_throwing (js_Error ''next failed'')\<rparr>) request_all)
     = [Error (js_Error ''Token used too late'')] \<and>
   promise (authenticate
       ((constructor (rejecting_client (js_Error ''Token used too late'')) options_plain
           (verify_calling [done_user]))
        \<lparr>error_fn := error_fn_throwing (js_Error ''next failed'')\<rparr>) request_all)
     = Rejected (js_Error ''next failed'') \<and>
   lookup JNull ''id_token'' = Inl (js_TypeError ''body'') \<and>
   handler_calls (authenticate
       (constructor (accepting_client payload_full) options_plain (verify_calling [done_user]))
       JNull) = [] \<and>
   promise (authenticate
       (constructor (accepting_client payload_full) options_plain (verify_calling [done_user]))
       JNull) = Rejected (js_TypeError ''body'')"
  by (simp add: run_defs example_defs lookup_def and_index_def accessToken_def refreshToken_def)

text \<open>
  Claim C4, amended. On a request that is neither \<^verbatim>\<open>null\<close> nor \<^verbatim>\<open>undefined\<close> the
  lookup returns. A rejection of the engine, the missing payload, and a value that the
  invocation of the verification function throws to its caller (profile mapping comes
  before it and throws nothing) each reach the Error handler, and the promise of
  \<^verbatim>\<open>authenticate\<close> then settles as that call of the Error handler ends. When the
  invocation returns, the promise is fulfilled. So with an Error handler that always
  returns, the promise never rejects.
\<close>

theorem authenticate_catches:
  assumes "req \<noteq> JUndefined" and "req \<noteq> JNull"
  shows "\<exists>idToken. lookup req ''id_token'' = Inr idToken \<and>
           (\<forall>cause. client s idToken (clientId s) = Rejects cause \<longrightarrow>
              Error cause \<in> set (handler_calls (authenticate s req)) \<and>
              promise (authenticate s req) = settle (error_fn s cause)) \<and>
           (\<forall>t. client s idToken (clientId s) = Resolves t \<and> getPayload t = None \<longrightarrow>
              Error (js_Error ''No payload returned'') \<in> set (handler_calls (authenticate s req)) \<and>
              promise (authenticate s req) = settle (error_fn s (js_Error ''No payload returned''))) \<and>
           (\<forall>t p args. client s idToken (clientId s) = Resolves t \<and> getPayload t = Some p \<and>
                args = (if passReq s then [ArgReq req] else []) @
                       [ArgToken accessToken, ArgToken refreshToken,
                        ArgProfile (parseProfile p), ArgDone] \<longrightarrow>
              (\<forall>e. thrown (verify_fn s args) = Some e \<longrightarrow>
                 Error e \<in> set (handler_calls (authenticate s req)) \<and>
                 promise (authenticate s req) = settle (error_fn s e)) \<and>
              (thrown (verify_fn s args) = None \<longrightarrow> promise (authenticate s req) = Fulfilled)) \<and>
           ((\<forall>err. error_fn s err = Returned) \<longrightarrow>
              (\<forall>e. promise (authenticate s req) \<noteq> Rejected e))"
proof -
  obtain idToken where l: "lookup req ''id_token'' = Inr idToken"
    using lookup_defined [OF assms] by blast
  have 1: "\<forall>cause. client s idToken (clientId s) = Rejects cause \<longrightarrow>
              Error cause \<in> set (handler_calls (authenticate s req)) \<and>
              promise (authenticate s req) = settle (error_fn s cause)"
    by (simp add: authenticate_failed(1) [OF l])
  have 2: "\<forall>t. client s idToken (clientId s) = Resolves t \<and> getPayload t = None \<longrightarrow>
              Error (js_Error ''No payload returned'') \<in> set (handler_calls (authenticate s req)) \<and>
              promise (authenticate s req) = settle (error_fn s (js_Error ''No payload returned''))"
    by (simp add: authenticate_failed(2) [OF l])
  have 3: "\<forall>t p args. client s idToken (clientId s) = Resolves t \<and> getPayload t = Some p \<and>
                args = (if passReq s then [ArgReq req] else []) @
                       [ArgToken accessToken, ArgToken refreshToken,
                        ArgProfile (parseProfile p), ArgDone] \<longrightarrow>
              (\<forall>e. thrown (verify_fn s args) = Some e \<longrightarrow>
                 Error e \<in> set (handler_calls (authenticate s req)) \<and>
                 promise (authenticate s req) = settle (error_fn s e)) \<and>
              (thrown (verify_fn s args) = None \<longrightarrow> promise (authenticate s req) = Fulfilled)"
  proof (intro allI impI, elim conjE)
    fix t p args
    assume r: "client s idToken (clientId s) = Resolves t" and g: "getPayload t = Some p"
      and "args = (if passReq s then [ArgReq req] else []) @
                  [ArgToken accessToken, ArgToken refreshToken,
                   ArgProfile (parseProfile p), ArgDone]"
    then have args: "args = verify_args s req p" by (simp add: verify_args_def)
    have a: "\<forall>e. thrown (verify_fn s args) = Some e \<longrightarrow>
                 Error e \<in> set (handler_calls (authenticate s req)) \<and>
                 promise (authenticate s req) = settle (error_fn s e)"
      using authenticate_count(3) [OF l r g]
      by (simp add: authenticate_verified [OF l r g] args)
    have b: "thrown (verify_fn s args) = None \<longrightarrow> promise (authenticate s req) = Fulfilled"
      by (simp add: authenticate_verified [OF l r g] args)
    from a b show "(\<forall>e. thrown (verify_fn s args) = Some e \<longrightarrow>
                 Error e \<in> set (handler_calls (authenticate s req)) \<and>
                 promise (authenticate s req) = settle (error_fn s e)) \<and>
              (thrown (verify_fn s args) = None \<longrightarrow> promise (authenticate s req) = Fulfilled)"
      by blast
  qed
  have 4: "(\<forall>err. error_fn s err = Returned) \<longrightarrow>
              (\<forall>e. promise (authenticate s req) \<noteq> Rejected e)"
    using l by (simp add: run_defs split: engine_result.splits option.splits)
  from l 1 2 3 4 show ?thesis by blast
qed

theorem authenticate_catches_witness:
  "request_all \<noteq> JUndefined \<and> request_all \<noteq> JNull \<and>
   handler_calls (authenticate
       (constructor (accepting_client payload_full) options_plain
          (verify_throwing [] (js_Error ''boom''))) request_all) = [Error (js_Error ''boom'')] \<and>
   promise (authenticate
       (constructor (accepting_client payload_full) options_plain
          (verify_throwing [] (js_Error ''boom''))) request_all) = Fulfilled \<and>
   promise (authenticate
       ((constructor (accepting_client payload_full) options_plain
           (verify_throwing [] (js_Error ''boom'')))
        \<lparr>error_fn := error_fn_throwing (js_Error ''next failed'')\<rparr>) request_all)
     = Rejected (js_Error ''next failed'')"
  using authenticate_catches [of request_all
      "constructor (accepting_client payload_full) options_plain
          (verify_throwing [] (js_Error ''boom''))"]
    authenticate_catches [of request_all
      "(constructor (accepting_client payload_full) options_plain
           (verify_throwing [] (js_Error ''boom'')))
        \<lparr>error_fn := error_fn_throwing (js_Error ''next failed'')\<rparr>"]
  by (simp add: run_defs example_defs lookup_def and_index_def accessToken_def refreshToken_def)

section \<open>Priority of the token locations\<close>

text \<open>
  Claim C5. On a request object, with \<open>vb\<close>, \<open>vq\<close> and \<open>vh\<close> the values of
  \<^verbatim>\<open>req.body && req.body[field]\<close> and of its two siblings, \<^verbatim>\<open>lookup\<close> returns the first
  truthy one in the order body, query, headers, and a falsy value (the one of the headers)
  when none is truthy.
\<close>

theorem lookup_priority:
  assumes "req \<noteq> JUndefined" and "req \<noteq> JNull"
  shows "\<exists>body query headers vb vq vh.
           get_prop req ''body'' = Inr body \<and> and_index body field = Inr vb \<and>
           get_prop req ''query'' = Inr query \<and> and_index query field = Inr vq \<and>
           get_prop req ''headers'' = Inr headers \<and> and_index headers field = Inr vh \<and>
           (truthy vb \<longrightarrow> lookup req field = Inr vb) \<and>
           (\<not> truthy vb \<and> truthy vq \<longrightarrow> lookup req field = Inr vq) \<and>
           (\<not> truthy vb \<and> \<not> truthy vq \<and> truthy vh \<longrightarrow> lookup req field = Inr vh) \<and>
           (\<not> truthy vb \<and> \<not> truthy vq \<and> \<not> truthy vh \<longrightarrow>
              (\<exists>v. lookup req field = Inr v \<and> \<not> truthy v))"
proof -
  obtain body where b: "get_prop req ''body'' = Inr body"
    using get_prop_defined [OF assms] by blast
  obtain query where q: "get_prop req ''query'' = Inr query"
    using get_prop_defined [OF assms] by blast
  obtain headers where h: "get_prop req ''headers'' = Inr headers"
    using get_prop_defined [OF assms] by blast
  obtain vb where vb: "and_index body field = Inr vb" using and_index_defined by blast
  obtain vq where vq: "and_index query field = Inr vq" using and_index_defined by blast
  obtain vh where vh: "and_index headers field = Inr vh" using and_index_defined by blast
  have "lookup req field = Inr (if truthy vb then vb else if truthy vq then vq else vh)"
    by (simp add: lookup_def b q h vb vq vh)
  with b q h vb vq vh show ?thesis by auto
qed

theorem lookup_priority_witness:
  "request_all \<noteq> JUndefined \<and> request_all \<noteq> JNull \<and>
   lookup request_all ''id_token'' = Inr (JStr ''B'') \<and>
   lookup request_header ''id_token'' = Inr (JStr ''H'') \<and>
   lookup request_none ''id_token'' = Inr (JStr [])"
  using lookup_priority [of request_all "''id_token''"]
    lookup_priority [of request_header "''id_token''"]
    lookup_priority [of request_none "''id_token''"]
  by (simp add: request_all_def request_header_def request_none_def and_index_def lookup_def)

section \<open>Arguments of the verification function\<close>

text \<open>
  Claim C6. After a successful verification a strategy constructed with
  \<^verbatim>\<open>passReqToCallback: true\<close> applies the verification function once, to the request,
  the access token, the refresh token, the profile and the completion callback; one
  constructed without the option, or with \<^verbatim>\<open>false\<close>, applies it once to the same list
  less the request. The handler invocations of the run are those that this application
  causes: the ones of its synchronous calls of the callback, Error for what it throws,
  then the ones of its later calls. This holds whatever handlers the host has assigned.
\<close>

theorem verify_invocation_shape:
  assumes "lookup req ''id_token'' = Inr idToken"
    and "new_client (clientID options) idToken (clientID options) = Resolves t"
    and "getPayload t = Some p"
  shows "(passReqToCallback options = Some True \<longrightarrow>
            (let s = (constructor new_client options verify)
                       \<lparr>error_fn := eh, fail_fn := fh, success_fn := sh\<rparr>;
                 args = [ArgReq req, ArgToken accessToken, ArgToken refreshToken,
                         ArgProfile (parseProfile p), ArgDone];
                 r = verify args
             in verify_calls (authenticate s req) = [args] \<and>
                handler_calls (authenticate s req) =
                  callback_calls s (async_calls r)
                    (callback_calls s (sync_calls r) [] @
                     (case thrown r of None \<Rightarrow> [] | Some e \<Rightarrow> [Error e])))) \<and>
         (passReqToCallback options = None \<or> passReqToCallback options = Some False \<longrightarrow>
            (let s = (constructor new_client options verify)
                       \<lparr>error_fn := eh, fail_fn := fh, success_fn := sh\<rparr>;
                 args = [ArgToken accessToken, ArgToken refreshToken,
                         ArgProfile (parseProfile p), ArgDone];
                 r = verify args
             in verify_calls (authenticate s req) = [args] \<and>
                handler_calls (authenticate s req) =
                  callback_calls s (async_calls r)
                    (callback_calls s (sync_calls r) [] @
                     (case thrown r of None \<Rightarrow> [] | Some e \<Rightarrow> [Error e]))))"
proof -
  let ?s = "(constructor new_client options verify)
              \<lparr>error_fn := eh, fail_fn := fh, success_fn := sh\<rparr>"
  have c: "client ?s idToken (clientId ?s) = Resolves t"
    using assms(2) by (simp add: constructor_def)
  have v: "verify_fn ?s = verify"
    by (simp add: constructor_def)
  have p: "passReq ?s = (passReqToCallback options = Some True)"
    by (cases "passReqToCallback options") (simp_all add: constructor_def)
  note a = authenticate_verified [OF assms(1) c assms(3)]
  show ?thesis
    unfolding Let_def by (auto simp: a v p verify_args_def)
qed

theorem verify_invocation_shape_witness:
  "handler_calls (authenticate
       (constructor (accepting_client payload_full) options_with_request verify_reporting)
       request_all) =
     [Success (JObj [(''req'', request_all), (''token'', JStr ''123''), (''token'', JStr ''234''),
                     (''profile'', JStr ''1001''), (''done'', JNull)]) JUndefined] \<and>
   handler_calls (authenticate
       (constructor (accepting_client payload_full) options_plain verify_reporting)
       request_all) =
     [Success (JObj [(''token'', JStr ''123''), (''token'', JStr ''234''),
                     (''profile'', JStr ''1001''), (''done'', JNull)]) JUndefined]"
proof -
  have h: "(constructor c options verify_reporting)
             \<lparr>error_fn := (\<lambda>err. Returned), fail_fn := (\<lambda>info. Returned),
              success_fn := (\<lambda>user info. Returned)\<rparr>
           = constructor c options verify_reporting" for c options
    by (simp add: constructor_def)
  have w: "callback_calls s (async_calls (verify_reporting args))
             (callback_calls s (sync_calls (verify_reporting args)) [] @
              (case thrown (verify_reporting args) of None \<Rightarrow> [] | Some e \<Rightarrow> [Error e]))
           = [Success (JObj (map arg_label args)) JUndefined]" for s args
    by (simp add: verify_reporting_def success_handler_def)
  have i: "profile_id (parseProfile payload_full) = ''1001''"
    by (simp add: parseProfile_def payload_full_def)
  show ?thesis
    using verify_invocation_shape
        [where req = request_all and idToken = "JStr ''B''"
           and new_client = "accepting_client payload_full" and options = options_with_request
           and t = "Ticket (Some payload_full)" and p = payload_full
           and verify = verify_reporting
           and eh = "\<lambda>err. Returned" and fh = "\<lambda>info. Returned"
           and sh = "\<lambda>user info. Returned"]
      verify_invocation_shape
        [where req = request_all and idToken = "JStr ''B''"
           and new_client = "accepting_client payload_full" and options = options_plain
           and t = "Ticket (Some payload_full)" and p = payload_full
           and verify = verify_reporting
           and eh = "\<lambda>err. Returned" and fh = "\<lambda>info. Returned"
           and sh = "\<lambda>user info. Returned"]
    by (simp add: lookup_request_all accepting_client_def options_with_request_def
        options_plain_def Let_def h w i accessToken_def refreshToken_def)
qed

section \<open>Profile mapping\<close>

text \<open>
  Claim C7 says that a present email claim gives one entry. The code tests the claim
  for truthiness, so an email claim that is the empty string gives no entry.
\<close>

theorem parseProfile_emails_counterexample:
  "email (payload_full\<lparr>email := Some []\<rparr>) = Some [] \<and>
   emails (parseProfile (payload_full\<lparr>email := Some []\<rparr>)) = []"
  by (simp add: parseProfile_def payload_full_def)

text \<open>
  Claim C7, amended. \<^verbatim>\<open>emails\<close> is empty when the email claim is absent or the empty
  string; when the claim is a non-empty string, \<^verbatim>\<open>emails\<close> has one entry, with that value
  and with the \<^verbatim>\<open>email_verified\<close> claim as its flag.
\<close>

theorem parseProfile_emails:
  "(email payload = None \<or> email payload = Some [] \<longrightarrow> emails (parseProfile payload) = []) \<and>
   (\<forall>e. email payload = Some e \<and> e \<noteq> [] \<longrightarrow>
      emails (parseProfile payload) =
        [\<lparr>email_value = e, verified = email_verified payload\<rparr>])"
  by (auto simp: emails_parseProfile)

theorem parseProfile_emails_witness:
  "emails (parseProfile payload_bare) = [] \<and>
   emails (parseProfile payload_full) =
     [\<lparr>email_value = ''ada@example.org'', verified = Some True\<rparr>]"
  using parseProfile_emails [of payload_bare] parseProfile_emails [of payload_full]
  by (simp add: payload_bare_def payload_full_def)

text \<open>
  Claim C8 says that \<^verbatim>\<open>name\<close> is set when exactly one of the two name claims is present.
  The code tests the claims for truthiness: a family name that is the empty string, with
  no given name, leaves \<^verbatim>\<open>name\<close> unset.
\<close>

theorem parseProfile_name_counterexample:
  "family_name (payload_bare\<lparr>family_name := Some []\<rparr>) = Some [] \<and>
   given_name (payload_bare\<lparr>family_name := Some []\<rparr>) = None \<and>
   profile_name (parseProfile (payload_bare\<lparr>family_name := Some []\<rparr>)) = None"
  by (simp add: parseProfile_def payload_bare_def)

text \<open>
  Claim C8, amended. With both claims present and at least one of them non-empty,
  \<^verbatim>\<open>name\<close> holds both; with exactly one present and non-empty, \<^verbatim>\<open>name\<close> holds it and
  leaves the other undefined; with neither claim a non-empty string (in particular with
  neither present), \<^verbatim>\<open>name\<close> is unset.
\<close>

theorem parseProfile_name:
  "(\<forall>f g. family_name payload = Some f \<and> given_name payload = Some g \<and> (f \<noteq> [] \<or> g \<noteq> []) \<longrightarrow>
      profile_name (parseProfile payload) = Some \<lparr>familyName = Some f, givenName = Some g\<rparr>) \<and>
   (\<forall>f. family_name payload = Some f \<and> f \<noteq> [] \<and> given_name payload = None \<longrightarrow>
      profile_name (parseProfile payload) = Some \<lparr>familyName = Some f, givenName = None\<rparr>) \<and>
   (\<forall>g. family_name payload = None \<and> given_name payload = Some g \<and> g \<noteq> [] \<longrightarrow>
      profile_name (parseProfile payload) = Some \<lparr>familyName = None, givenName = Some g\<rparr>) \<and>
   (\<not> truthy_str (family_name payload) \<and> \<not> truthy_str (given_name payload) \<longrightarrow>
      profile_name (parseProfile payload) = None)"
  by (auto simp: profile_name_parseProfile)

theorem parseProfile_name_witness:
  "profile_name (parseProfile payload_full) =
     Some \<lparr>familyName = Some ''Lovelace'', givenName = Some ''Ada''\<rparr> \<and>
   profile_name (parseProfile (payload_bare\<lparr>given_name := Some ''Ada''\<rparr>)) =
     Some \<lparr>familyName = None, givenName = Some ''Ada''\<rparr> \<and>
   profile_name (parseProfile (payload_bare\<lparr>family_name := Some ''Lovelace''\<rparr>)) =
     Some \<lparr>familyName = Some ''Lovelace'', givenName = None\<rparr> \<and>
   profile_name (parseProfile payload_bare) = None"
  using parseProfile_name [of payload_full]
    parseProfile_name [of "payload_bare\<lparr>given_name := Some ''Ada''\<rparr>"]
    parseProfile_name [of "payload_bare\<lparr>family_name := Some ''Lovelace''\<rparr>"]
    parseProfile_name [of payload_bare]
  by (simp add: payload_bare_def payload_full_def)

section \<open>The stand-in tokens\<close>

text \<open>
  Claim C9. After a successful verification the verification function is applied once,
  and the access token and the refresh token in its argument list are the strings
  \<^verbatim>\<open>123\<close> and \<^verbatim>\<open>234\<close>, whatever the strategy, the request, the token and the claims;
  the handler invocations of the run are those that this application causes.
\<close>

theorem stand_in_tokens:
  assumes "lookup req ''id_token'' = Inr idToken"
    and "client s idToken (clientId s) = Resolves t"
    and "getPayload t = Some p"
  shows "(let args = (if passReq s then [ArgReq req] else []) @
                     [ArgToken ''123'', ArgToken ''234'', ArgProfile (parseProfile p), ArgDone];
              r = verify_fn s args
          in verify_calls (authenticate s req) = [args] \<and>
             handler_calls (authenticate s req) =
               callback_calls s (async_calls r)
                 (callback_calls s (sync_calls r) [] @
                  (case thrown r of None \<Rightarrow> [] | Some e \<Rightarrow> [Error e])))"
  unfolding Let_def
  by (simp add: authenticate_verified [OF assms] verify_args_def accessToken_def
      refreshToken_def)

theorem stand_in_tokens_witness:
  "handler_calls (authenticate
       (constructor (accepting_client payload_bare) options_with_request verify_reporting)
       request_header) =
     [Success (JObj [(''req'', request_header), (''token'', JStr ''123''),
                     (''token'', JStr ''234''), (''profile'', JStr ''1002''),
                     (''done'', JNull)]) JUndefined] \<and>
   verify_calls (authenticate
       (constructor (accepting_client payload_full) options_plain verify_reporting)
       request_all) =
     [[ArgToken ''123'', ArgToken ''234'', ArgProfile (parseProfile payload_full), ArgDone]]"
proof -
  have l: "lookup request_header ''id_token'' = Inr (JStr ''H'')"
    by (simp add: request_header_def lookup_def and_index_def)
  have w: "callback_calls s (async_calls (verify_reporting args))
             (callback_calls s (sync_calls (verify_reporting args)) [] @
              (case thrown (verify_reporting args) of None \<Rightarrow> [] | Some e \<Rightarrow> [Error e]))
           = [Success (JObj (map arg_label args)) JUndefined]" for s args
    by (simp add: verify_reporting_def success_handler_def)
  have i: "profile_id (parseProfile payload_bare) = ''1002''"
    by (simp add: parseProfile_def payload_bare_def)
  show ?thesis
    using stand_in_tokens
        [where req = request_header and idToken = "JStr ''H''"
           and s = "constructor (accepting_client payload_bare) options_with_request
                      verify_reporting"
           and t = "Ticket (Some payload_bare)" and p = payload_bare]
      stand_in_tokens
        [where req = request_all and idToken = "JStr ''B''"
           and s = "constructor (accepting_client payload_full) options_plain verify_reporting"
           and t = "Ticket (Some payload_full)" and p = payload_full]
    by (simp add: l lookup_request_all Let_def w i constructor_def accepting_client_def
        options_with_request_def options_plain_def)
qed

section \<open>The verified flag\<close>

text \<open>
  Claim C10 speaks of every payload with the email claim present. With an email claim
  that is the empty string there is no entry in \<^verbatim>\<open>emails\<close>, so no flag at all.
\<close>

theorem parseProfile_verified_verbatim_counterexample:
  "email (payload_bare\<lparr>email := Some []\<rparr>) = Some [] \<and>
   email_verified (payload_bare\<lparr>email := Some []\<rparr>) = None \<and>
   map verified (emails (parseProfile (payload_bare\<lparr>email := Some []\<rparr>))) = []"
  by (simp add: parseProfile_def payload_bare_def)

text \<open>
  Claim C10, amended. When the email claim is a non-empty string and the
  \<^verbatim>\<open>email_verified\<close> claim is absent, the one entry of \<^verbatim>\<open>emails\<close> has the flag
  \<^verbatim>\<open>undefined\<close>: it is copied from the claims, not defaulted to \<^verbatim>\<open>false\<close>.
\<close>

theorem parseProfile_verified_verbatim:
  assumes "email payload = Some e" and "e \<noteq> []" and "email_verified payload = None"
  shows "map verified (emails (parseProfile payload)) = [None]"
  using assms by (simp add: emails_parseProfile)

theorem parseProfile_verified_verbatim_witness:
  "email (payload_bare\<lparr>email := Some ''ada@example.org''\<rparr>) = Some ''ada@example.org'' \<and>
   email_verified (payload_bare\<lparr>email := Some ''ada@example.org''\<rparr>) = None \<and>
   map verified (emails (parseProfile (payload_bare\<lparr>email := Some ''ada@example.org''\<rparr>))) = [None]"
  using parseProfile_verified_verbatim [of "payload_bare\<lparr>email := Some ''ada@example.org''\<rparr>" "''ada@example.org''"]
  by (simp add: payload_bare_def)

end
